theory Spec2Isabelle
  imports Main
begin

section \<open>The Redis list writer of \<^verbatim>\<open>lib/output/writer/redis_list.go\<close>\<close>

text \<open>
  The writer pushes every part of a message to the tail of a Redis list. This theory
  embeds its constructor and its methods \<^verbatim>\<open>Connect\<close>, \<^verbatim>\<open>Write\<close>,
  \<^verbatim>\<open>disconnect\<close> and \<^verbatim>\<open>WaitForClose\<close> as state-passing functions. The embedding
  is sequential: one method runs at a time, so the mutex \<^verbatim>\<open>connMut\<close> has no
  counterpart here, and neither has \<^verbatim>\<open>CloseAsync\<close>, which only starts
  \<^verbatim>\<open>disconnect\<close> in a goroutine of its own and returns.

  What the writer calls outside the repository is made explicit:
  \<^item> the answers of the Redis server (to \<^verbatim>\<open>Ping\<close>, \<^verbatim>\<open>RPush\<close> and \<^verbatim>\<open>Close\<close>) are given
    by a function of the operations issued so far and the operation at hand;
  \<^item> the value returned by \<^verbatim>\<open>url.Parse(conf.URL)\<close> is an argument of the constructor;
  \<^item> \<^verbatim>\<open>strconv.Atoi\<close> is modelled after its documentation, with the width of \<^verbatim>\<open>int\<close>
    as a parameter.
\<close>

subsection \<open>Errors\<close>

datatype error =
    ErrNotConnected      \<comment> \<open>\<^verbatim>\<open>types.ErrNotConnected\<close>\<close>
  | FmtError string      \<comment> \<open>\<^verbatim>\<open>fmt.Errorf\<close>, with the formatted message\<close>
  | UrlError string      \<comment> \<open>an error of \<^verbatim>\<open>url.Parse\<close>\<close>
  | ErrSyntax string     \<comment> \<open>\<^verbatim>\<open>strconv.NumError\<close> with \<^verbatim>\<open>ErrSyntax\<close>, on the given input\<close>
  | ErrRange string      \<comment> \<open>\<^verbatim>\<open>strconv.NumError\<close> with \<^verbatim>\<open>ErrRange\<close>, on the given input\<close>
  | RedisError string    \<comment> \<open>an error of the Redis client\<close>

text \<open>A Go result of type \<^verbatim>\<open>error\<close> is an \<open>error option\<close>: \<open>None\<close> is \<^verbatim>\<open>nil\<close>.\<close>

subsection \<open>Configuration, URL and the writer\<close>

record RedisListConfig =
  URL :: string
  Key :: string
  MaxInFlight :: int

definition NewRedisListConfig :: RedisListConfig where
  "NewRedisListConfig =
     \<lparr>URL = ''tcp://localhost:6379'', Key = ''benthos_list'', MaxInFlight = 1\<rparr>"

text \<open>The fields of \<^verbatim>\<open>url.Userinfo\<close> and of \<^verbatim>\<open>url.URL\<close> that the writer reads.\<close>

record Userinfo =
  username :: string
  password :: string
  passwordSet :: bool

record Url =
  Scheme :: string
  Host :: string
  User :: "Userinfo option"
  Path :: string

text \<open>\<^verbatim>\<open>redis.Options\<close>, as far as the writer fills it.\<close>

record Options =
  Addr :: string
  Network :: string
  DB :: int
  Password :: string

text \<open>
  A \<^verbatim>\<open>*redis.Client\<close>: the options it was made with, and a serial number that tells
  two clients made with the same options apart, as the pointers do.
\<close>

record Client =
  serial :: nat
  opt :: Options

text \<open>
  The struct \<^verbatim>\<open>RedisList\<close>. Its logger writes to the world below, \<^verbatim>\<open>stats\<close> is never
  used, and \<open>client = None\<close> is the \<^verbatim>\<open>nil\<close> pointer.
\<close>

record RedisList =
  url :: Url
  conf :: RedisListConfig
  client :: "Client option"

subsection \<open>Messages\<close>

datatype Part = Part (Get: string)

type_synonym Message = "Part list"

subsection \<open>The world outside the writer\<close>

datatype netop =
    Ping Client
  | RPush Client string string   \<comment> \<open>client, key, value\<close>
  | Close Client

datatype logline =
    Infof string    \<comment> \<open>\<^verbatim>\<open>"Pushing messages to Redis list: %v\n"\<close>, with the key\<close>
  | Errorf error    \<comment> \<open>\<^verbatim>\<open>"Error from redis: %v\n"\<close>, with the error\<close>

text \<open>
  The server: given the operations issued so far (oldest first) and an operation, the
  error it answers with, or \<open>None\<close> when the operation succeeds.
\<close>

type_synonym redis = "netop list \<Rightarrow> netop \<Rightarrow> error option"

record World =
  net :: "netop list"        \<comment> \<open>the operations issued so far, oldest first\<close>
  logged :: "logline list"   \<comment> \<open>the lines logged so far, oldest first\<close>
  made :: nat                \<comment> \<open>how many clients \<^verbatim>\<open>redis.NewClient\<close> has made\<close>

type_synonym state = "RedisList \<times> World"

definition issue :: "redis \<Rightarrow> netop \<Rightarrow> World \<Rightarrow> error option \<times> World" where
  "issue srv op w = (srv (net w) op, w\<lparr>net := net w @ [op]\<rparr>)"

definition log_line :: "logline \<Rightarrow> World \<Rightarrow> World" where
  "log_line l w = w\<lparr>logged := logged w @ [l]\<rparr>"

text \<open>\<^verbatim>\<open>redis.NewClient\<close> makes a client and does no network operation.\<close>

definition NewClient :: "Options \<Rightarrow> World \<Rightarrow> Client \<times> World" where
  "NewClient os w = (\<lparr>serial = made w, opt = os\<rparr>, w\<lparr>made := Suc (made w)\<rparr>)"

subsection \<open>\<^verbatim>\<open>strconv.Atoi\<close>\<close>

text \<open>
  \<^verbatim>\<open>strconv.Atoi(s)\<close> is \<^verbatim>\<open>ParseInt(s, 10, 0)\<close> converted to \<^verbatim>\<open>int\<close>: an optional sign
  \<^verbatim>\<open>+\<close> or \<^verbatim>\<open>-\<close>, then one or more decimal digits and nothing else (a syntax error
  otherwise); the value must fit a signed integer of \<open>intSize\<close> bits (a range error
  otherwise).
\<close>

definition isdigit :: "char \<Rightarrow> bool" where
  "isdigit c = (48 \<le> (of_char c :: nat) \<and> (of_char c :: nat) \<le> 57)"

definition digit_val :: "char \<Rightarrow> nat" where
  "digit_val c = of_char c - 48"

definition decval :: "string \<Rightarrow> nat" where
  "decval ds = foldl (\<lambda>n c. n * 10 + digit_val c) 0 ds"

definition strconv_Atoi :: "nat \<Rightarrow> string \<Rightarrow> error + int" where
  "strconv_Atoi intSize s =
     (let neg = (take 1 s = ''-'');
          ds = (if take 1 s = ''-'' \<or> take 1 s = ''+'' then drop 1 s else s)
      in if ds = [] then Inl (ErrSyntax s)
         else if list_all isdigit ds then
           (if neg then
              (if 2 ^ (intSize - 1) < decval ds then Inl (ErrRange s)
               else Inr (- int (decval ds)))
            else
              (if 2 ^ (intSize - 1) \<le> decval ds then Inl (ErrRange s)
               else Inr (int (decval ds))))
         else Inl (ErrSyntax s))"

subsection \<open>The constructor\<close>

text \<open>
  \<^verbatim>\<open>NewRedisList(conf, log, stats)\<close>. The second argument here is the value that
  \<^verbatim>\<open>url.Parse(conf.URL)\<close> returns: the parsed URL, or the error.
\<close>

definition NewRedisList :: "RedisListConfig \<Rightarrow> error + Url \<Rightarrow> error + RedisList" where
  "NewRedisList cf parsed =
     (case parsed of
        Inl err \<Rightarrow> Inl err
      | Inr u \<Rightarrow> Inr \<lparr>url = u, conf = cf, client = None\<rparr>)"

subsection \<open>\<^verbatim>\<open>Connect\<close>\<close>

text \<open>Lines 83 to 86: the password of the URL's user information, if there is one.\<close>

definition url_pass :: "Url \<Rightarrow> string" where
  "url_pass u = (case User u of None \<Rightarrow> [] | Some ui \<Rightarrow> password ui)"

text \<open>
  Lines 90 to 98: the database index. It is 0 unless the path is longer than one byte;
  then the path without its first byte goes through \<^verbatim>\<open>strconv.Atoi\<close>.
\<close>

definition invalid_db :: "string \<Rightarrow> error" where
  \<comment> \<open>\<^verbatim>\<open>fmt.Errorf("invalid Redis DB, can't parse '%s'", path)\<close>\<close>
  "invalid_db path =
     FmtError (''invalid Redis DB, can't parse '' @ [CHR 0x27] @ path @ [CHR 0x27])"

definition redisDB :: "nat \<Rightarrow> Url \<Rightarrow> error + int" where
  "redisDB intSize u =
     (if 1 < length (Path u) then
        (case strconv_Atoi intSize (drop 1 (Path u)) of
           Inl err \<Rightarrow> Inl (invalid_db (Path u))
         | Inr n \<Rightarrow> Inr n)
      else Inr 0)"

text \<open>Lines 100 to 105: the options the client is made with.\<close>

definition redis_options :: "Url \<Rightarrow> int \<Rightarrow> Options" where
  "redis_options u db =
     \<lparr>Addr = Host u, Network = Scheme u, DB = db, Password = url_pass u\<rparr>"

definition Connect :: "nat \<Rightarrow> redis \<Rightarrow> state \<Rightarrow> error option \<times> state" where
  "Connect intSize srv st =
     (case st of (r, w) \<Rightarrow>
        (case redisDB intSize (url r) of
           Inl err \<Rightarrow> (Some err, r, w)
         | Inr db \<Rightarrow>
             (case NewClient (redis_options (url r) db) w of
                (c, w1) \<Rightarrow>
                  (case issue srv (Ping c) w1 of
                     (Some err, w2) \<Rightarrow> (Some err, r, w2)
                   | (None, w2) \<Rightarrow>
                       (None, r\<lparr>client := Some c\<rparr>, log_line (Infof (Key (conf r))) w2)))))"

definition ConnectWithContext :: "nat \<Rightarrow> redis \<Rightarrow> state \<Rightarrow> error option \<times> state" where
  "ConnectWithContext intSize srv st = Connect intSize srv st"

subsection \<open>\<^verbatim>\<open>disconnect\<close> and closing\<close>

definition disconnect :: "redis \<Rightarrow> state \<Rightarrow> error option \<times> state" where
  "disconnect srv st =
     (case st of (r, w) \<Rightarrow>
        (case client r of
           Some c \<Rightarrow>
             (case issue srv (Close c) w of
                (err, w1) \<Rightarrow> (err, r\<lparr>client := None\<rparr>, w1))
         | None \<Rightarrow> (None, r, w)))"

text \<open>\<^verbatim>\<open>WaitForClose\<close> returns \<^verbatim>\<open>nil\<close>.\<close>

definition WaitForClose :: "int \<Rightarrow> state \<Rightarrow> error option \<times> state" where
  "WaitForClose timeout st = (None, st)"

subsection \<open>\<^verbatim>\<open>Write\<close>\<close>

text \<open>
  Modelled from the spec: \<^verbatim>\<open>types.Message.Iter\<close>, a method of the repository's message
  type, is not among the sources. The specification takes a message to be an ordered
  sequence of parts, handled "for each part in the message, in order", where
  "processing stops at the first part that fails" and "if all parts append
  successfully" the result is success. So \<open>Iter\<close> calls the function on each part with
  its index, from the first part on, returns the first error and calls nothing after
  it, and returns \<^verbatim>\<open>nil\<close> when no call fails.
\<close>

fun Iter :: "(nat \<Rightarrow> Part \<Rightarrow> 's \<Rightarrow> error option \<times> 's) \<Rightarrow> nat \<Rightarrow> Message \<Rightarrow> 's \<Rightarrow> error option \<times> 's" where
  "Iter f i [] s = (None, s)"
| "Iter f i (p # ps) s =
     (case f i p s of
        (Some err, s') \<Rightarrow> (Some err, s')
      | (None, s') \<Rightarrow> Iter f (Suc i) ps s')"

text \<open>
  Lines 135 to 142, the function given to \<^verbatim>\<open>Iter\<close>: it pushes one part through the
  client that \<^verbatim>\<open>Write\<close> read at its start. When the push fails it calls
  \<^verbatim>\<open>disconnect\<close>, whose result it drops, logs the error of the push and returns
  \<^verbatim>\<open>ErrNotConnected\<close>.
\<close>

definition push_part :: "redis \<Rightarrow> Client \<Rightarrow> nat \<Rightarrow> Part \<Rightarrow> state \<Rightarrow> error option \<times> state" where
  "push_part srv c i p st =
     (case st of (r, w) \<Rightarrow>
        (case issue srv (RPush c (Key (conf r)) (Get p)) w of
           (Some err, w1) \<Rightarrow>
             (case disconnect srv (r, w1) of
                (_, r2, w2) \<Rightarrow> (Some ErrNotConnected, r2, log_line (Errorf err) w2))
         | (None, w1) \<Rightarrow> (None, r, w1)))"

definition Write :: "redis \<Rightarrow> state \<Rightarrow> Message \<Rightarrow> error option \<times> state" where
  "Write srv st msg =
     (case client (fst st) of
        None \<Rightarrow> (Some ErrNotConnected, st)
      | Some c \<Rightarrow> Iter (push_part srv c) 0 msg st)"

definition WriteWithContext :: "redis \<Rightarrow> state \<Rightarrow> Message \<Rightarrow> error option \<times> state" where
  "WriteWithContext srv st msg = Write srv st msg"

subsection \<open>Notions used in the statements\<close>

text \<open>The push operations of the parts of a message, in the order of the parts.\<close>

definition pushes :: "Client \<Rightarrow> string \<Rightarrow> Message \<Rightarrow> netop list" where
  "pushes c k ps = map (\<lambda>p. RPush c k (Get p)) ps"

text \<open>
  The server accepts the push of every part of \<open>ps\<close>, each push coming after the
  operations \<open>h\<close> and the pushes of the parts before it.
\<close>

fun all_pushes_ok :: "redis \<Rightarrow> netop list \<Rightarrow> Client \<Rightarrow> string \<Rightarrow> Message \<Rightarrow> bool" where
  "all_pushes_ok srv h c k [] = True"
| "all_pushes_ok srv h c k (p # ps) =
     (srv h (RPush c k (Get p)) = None \<and> all_pushes_ok srv (h @ [RPush c k (Get p)]) c k ps)"

text \<open>The client that \<^verbatim>\<open>Connect\<close> makes in world \<open>w\<close> for the database index \<open>db\<close>.\<close>

definition next_client :: "RedisList \<Rightarrow> int \<Rightarrow> World \<Rightarrow> Client" where
  "next_client r db w = \<lparr>serial = made w, opt = redis_options (url r) db\<rparr>"

text \<open>The decimal numeral of a natural number, without leading zeros.\<close>

fun decimal :: "nat \<Rightarrow> string" where
  "decimal n =
     (if n < 10 then [char_of (48 + n)]
      else decimal (n div 10) @ [char_of (48 + n mod 10)])"

subsection \<open>Sample inputs\<close>

text \<open>
  The endpoint \<^verbatim>\<open>tcp://:secret@cache-host:6379/2\<close> with the key \<^verbatim>\<open>jobs\<close>, and what
  \<^verbatim>\<open>url.Parse\<close> returns for it.
\<close>

definition sample_conf :: RedisListConfig where
  "sample_conf = \<lparr>URL = ''tcp://:secret@cache-host:6379/2'', Key = ''jobs'', MaxInFlight = 1\<rparr>"

definition sample_url :: Url where
  "sample_url =
     \<lparr>Scheme = ''tcp'', Host = ''cache-host:6379'',
      User = Some \<lparr>username = [], password = ''secret'', passwordSet = True\<rparr>,
      Path = ''/2''\<rparr>"

definition world0 :: World where
  "world0 = \<lparr>net = [], logged = [], made = 0\<rparr>"

definition sink0 :: RedisList where
  "sink0 = \<lparr>url = sample_url, conf = sample_conf, client = None\<rparr>"

text \<open>The writer and the world after a first successful \<^verbatim>\<open>Connect\<close>.\<close>

definition client0 :: Client where
  "client0 =
     \<lparr>serial = 0,
      opt = \<lparr>Addr = ''cache-host:6379'', Network = ''tcp'', DB = 2, Password = ''secret''\<rparr>\<rparr>"

definition sink1 :: RedisList where
  "sink1 = \<lparr>url = sample_url, conf = sample_conf, client = Some client0\<rparr>"

definition world1 :: World where
  "world1 = \<lparr>net = [Ping client0], logged = [Infof ''jobs''], made = 1\<rparr>"

text \<open>
  The endpoints \<^verbatim>\<open>tcp://localhost:6379/abc\<close> and \<^verbatim>\<open>tcp://localhost:6379/-5\<close>: both
  are well-formed URLs, so \<^verbatim>\<open>url.Parse\<close> returns their parts.
\<close>

definition abc_conf :: RedisListConfig where
  "abc_conf = \<lparr>URL = ''tcp://localhost:6379/abc'', Key = ''benthos_list'', MaxInFlight = 1\<rparr>"

definition abc_url :: Url where
  "abc_url = \<lparr>Scheme = ''tcp'', Host = ''localhost:6379'', User = None, Path = ''/abc''\<rparr>"

definition minus5_url :: Url where
  "minus5_url = \<lparr>Scheme = ''tcp'', Host = ''localhost:6379'', User = None, Path = ''/-5''\<rparr>"

text \<open>
  Five servers: one that accepts everything, one that refuses everything, one that
  answers a ping but fails every push and every close, one that accepts two
  operations and fails from the third on, and one that fails every push and accepts
  everything else.
\<close>

definition srv_up :: redis where
  "srv_up h op = None"

definition srv_down :: redis where
  "srv_down h op = Some (RedisError ''connection refused'')"

definition srv_broken :: redis where
  "srv_broken h op =
     (case op of
        Ping c \<Rightarrow> None
      | RPush c k v \<Rightarrow> Some (RedisError ''broken pipe'')
      | Close c \<Rightarrow> Some (RedisError ''close failed''))"

definition srv_two :: redis where
  "srv_two h op = (if length h < 2 then None else Some (RedisError ''i/o timeout''))"

definition srv_no_push :: redis where
  "srv_no_push h op =
     (case op of
        Ping c \<Rightarrow> None
      | RPush c k v \<Rightarrow> Some (RedisError ''read only'')
      | Close c \<Rightarrow> None)"

section \<open>Properties\<close>

declare decimal.simps [simp del]

lemmas sample_defs =
  sample_conf_def sample_url_def world0_def sink0_def client0_def sink1_def world1_def

lemmas atoi_defs = strconv_Atoi_def isdigit_def decval_def digit_val_def

lemmas connect_defs =
  Connect_def redisDB_def NewClient_def redis_options_def url_pass_def issue_def
  log_line_def next_client_def

subsection \<open>Pushing the parts of a message\<close>

lemma pushes_Nil: "pushes c k [] = []"
  by (simp add: pushes_def)

lemma pushes_Cons: "pushes c k (p # ps) = RPush c k (Get p) # pushes c k ps"
  by (simp add: pushes_def)

lemma length_pushes: "length (pushes c k ps) = length ps"
  by (simp add: pushes_def)

text \<open>
  \<open>all_pushes_ok\<close> says that the push of the part at every index succeeds when it comes
  after the pushes of the parts before it.
\<close>

lemma all_pushes_ok_index:
  "all_pushes_ok srv h c k ps \<longleftrightarrow>
     (\<forall>i<length ps. srv (h @ pushes c k (take i ps)) (RPush c k (Get (ps ! i))) = None)"
proof (induction ps arbitrary: h)
  case Nil
  show ?case by simp
next
  case (Cons p ps)
  let ?op = "RPush c k (Get p)"
  have "(\<forall>i<length (p # ps). srv (h @ pushes c k (take i (p # ps))) (RPush c k (Get ((p # ps) ! i))) = None)
      \<longleftrightarrow> srv h ?op = None \<and>
          (\<forall>j<length ps. srv ((h @ [?op]) @ pushes c k (take j ps)) (RPush c k (Get (ps ! j))) = None)"
    by (simp add: All_less_Suc2 pushes_Nil pushes_Cons)
  with Cons.IH [of "h @ [?op]"] show ?case by simp
qed

lemma push_part_ok:
  "srv (net w) (RPush c (Key (conf r)) (Get p)) = None \<Longrightarrow>
   push_part srv c i p (r, w) = (None, r, w\<lparr>net := net w @ [RPush c (Key (conf r)) (Get p)]\<rparr>)"
  by (simp add: push_part_def issue_def)

lemma push_part_fail:
  "srv (net w) (RPush c (Key (conf r)) (Get p)) = Some e \<Longrightarrow> client r = Some c \<Longrightarrow>
   push_part srv c i p (r, w) =
     (Some ErrNotConnected, r\<lparr>client := None\<rparr>,
      w\<lparr>net := net w @ [RPush c (Key (conf r)) (Get p), Close c],
        logged := logged w @ [Errorf e]\<rparr>)"
  by (simp add: push_part_def issue_def disconnect_def log_line_def)

lemma Iter_all_ok:
  "all_pushes_ok srv (net w) c (Key (conf r)) ps \<Longrightarrow>
   Iter (push_part srv c) i ps (r, w) = (None, r, w\<lparr>net := net w @ pushes c (Key (conf r)) ps\<rparr>)"
proof (induction ps arbitrary: i w)
  case Nil
  show ?case by (simp add: pushes_Nil)
next
  case (Cons p ps)
  let ?op = "RPush c (Key (conf r)) (Get p)"
  let ?w1 = "w\<lparr>net := net w @ [?op]\<rparr>"
  from Cons.prems have hd: "srv (net w) ?op = None"
    and tl: "all_pushes_ok srv (net w @ [?op]) c (Key (conf r)) ps"
    by simp_all
  have "Iter (push_part srv c) i (p # ps) (r, w) = Iter (push_part srv c) (Suc i) ps (r, ?w1)"
    using hd by (simp add: push_part_ok)
  also have "\<dots> = (None, r, ?w1\<lparr>net := net ?w1 @ pushes c (Key (conf r)) ps\<rparr>)"
    using tl by (intro Cons.IH) simp
  finally show ?case by (simp add: pushes_Cons)
qed

lemma Iter_first_failure:
  assumes "client r = Some c"
    and "all_pushes_ok srv (net w) c (Key (conf r)) pre"
    and "srv (net w @ pushes c (Key (conf r)) pre) (RPush c (Key (conf r)) (Get p)) = Some e"
  shows "Iter (push_part srv c) i (pre @ p # post) (r, w) =
     (Some ErrNotConnected, r\<lparr>client := None\<rparr>,
      w\<lparr>net := net w @ pushes c (Key (conf r)) (pre @ [p]) @ [Close c],
        logged := logged w @ [Errorf e]\<rparr>)"
  using assms
proof (induction pre arbitrary: i w)
  case Nil
  then show ?case by (simp add: pushes_Nil pushes_Cons push_part_fail)
next
  case (Cons q pre)
  let ?op = "RPush c (Key (conf r)) (Get q)"
  let ?w1 = "w\<lparr>net := net w @ [?op]\<rparr>"
  from Cons.prems have hd: "srv (net w) ?op = None"
    and tl: "all_pushes_ok srv (net w @ [?op]) c (Key (conf r)) pre"
    by simp_all
  have "Iter (push_part srv c) i ((q # pre) @ p # post) (r, w) =
        Iter (push_part srv c) (Suc i) (pre @ p # post) (r, ?w1)"
    using hd by (simp add: push_part_ok)
  also have "\<dots> = (Some ErrNotConnected, r\<lparr>client := None\<rparr>,
      ?w1\<lparr>net := net ?w1 @ pushes c (Key (conf r)) (pre @ [p]) @ [Close c],
        logged := logged ?w1 @ [Errorf e]\<rparr>)"
    using Cons.prems(1) tl Cons.prems(3) by (intro Cons.IH) (simp_all add: pushes_Cons)
  finally show ?case by (simp add: pushes_Cons)
qed

text \<open>
  C1. On a writer that holds a client, when the server accepts the push of every part,
  \<^verbatim>\<open>Write\<close> returns \<^verbatim>\<open>nil\<close>, and what it adds to the operations issued is exactly one
  \<^verbatim>\<open>RPush\<close> per part, to the configured key, in the order of the parts; the writer
  and the log stay as they were.
\<close>

theorem Write_pushes_every_part:
  assumes "client r = Some c"
    and "all_pushes_ok srv (net w) c (Key (conf r)) msg"
  shows "Write srv (r, w) msg = (None, r, w\<lparr>net := net w @ pushes c (Key (conf r)) msg\<rparr>)
       \<and> length (pushes c (Key (conf r)) msg) = length msg"
  using assms by (simp add: Write_def Iter_all_ok length_pushes)

theorem Write_pushes_every_part_witness:
  "client sink1 = Some client0
   \<and> all_pushes_ok srv_up (net world1) client0 (Key (conf sink1)) [Part ''a'', Part ''b'', Part ''c'']
   \<and> fst (Connect 64 srv_up (sink0, world0)) = None
   \<and> snd (Connect 64 srv_up (sink0, world0)) = (sink1, world1)
   \<and> Write srv_up (sink1, world1) [Part ''a'', Part ''b'', Part ''c''] =
       (None, sink1,
        \<lparr>net = [Ping client0, RPush client0 ''jobs'' ''a'', RPush client0 ''jobs'' ''b'',
                RPush client0 ''jobs'' ''c''],
         logged = [Infof ''jobs''], made = 1\<rparr>)"
proof -
  have h1: "client sink1 = Some client0"
    by (simp add: sink1_def)
  have h2: "all_pushes_ok srv_up (net world1) client0 (Key (conf sink1)) [Part ''a'', Part ''b'', Part ''c'']"
    by (simp add: srv_up_def)
  have c: "Connect 64 srv_up (sink0, world0) = (None, sink1, world1)"
    by (simp add: connect_defs atoi_defs sample_defs srv_up_def)
  from Write_pushes_every_part [OF h1 h2]
  have "Write srv_up (sink1, world1) [Part ''a'', Part ''b'', Part ''c''] =
       (None, sink1,
        \<lparr>net = [Ping client0, RPush client0 ''jobs'' ''a'', RPush client0 ''jobs'' ''b'',
                RPush client0 ''jobs'' ''c''],
         logged = [Infof ''jobs''], made = 1\<rparr>)"
    by (simp add: pushes_def sink1_def world1_def sample_conf_def)
  with h1 h2 c show ?thesis by simp
qed

text \<open>
  C2. On a writer that holds a client, let the pushes of the parts \<open>pre\<close> succeed and the
  push of the next part \<open>p\<close> fail with any error \<open>e\<close>. Then \<^verbatim>\<open>Write\<close> pushes nothing
  after \<open>p\<close>, closes the client, clears the stored client, logs \<open>e\<close> and returns
  \<^verbatim>\<open>ErrNotConnected\<close>; the next \<^verbatim>\<open>Write\<close> returns \<^verbatim>\<open>ErrNotConnected\<close> and changes
  nothing, so it issues no operation.
\<close>

theorem Write_first_failure:
  assumes "client r = Some c"
    and "all_pushes_ok srv (net w) c (Key (conf r)) pre"
    and "srv (net w @ pushes c (Key (conf r)) pre) (RPush c (Key (conf r)) (Get p)) = Some e"
  shows "Write srv (r, w) (pre @ p # post) =
     (Some ErrNotConnected, r\<lparr>client := None\<rparr>,
      w\<lparr>net := net w @ pushes c (Key (conf r)) (pre @ [p]) @ [Close c],
        logged := logged w @ [Errorf e]\<rparr>)
   \<and> Write srv' (snd (Write srv (r, w) (pre @ p # post))) msg' =
       (Some ErrNotConnected, snd (Write srv (r, w) (pre @ p # post)))"
proof -
  have 1: "Write srv (r, w) (pre @ p # post) =
     (Some ErrNotConnected, r\<lparr>client := None\<rparr>,
      w\<lparr>net := net w @ pushes c (Key (conf r)) (pre @ [p]) @ [Close c],
        logged := logged w @ [Errorf e]\<rparr>)"
    using assms by (simp add: Write_def Iter_first_failure)
  have 2: "Write srv' (snd (Write srv (r, w) (pre @ p # post))) msg' =
       (Some ErrNotConnected, snd (Write srv (r, w) (pre @ p # post)))"
    unfolding 1 by (simp add: Write_def)
  from 1 2 show ?thesis by blast
qed

theorem Write_first_failure_witness:
  "client sink1 = Some client0
   \<and> all_pushes_ok srv_two (net world1) client0 (Key (conf sink1)) [Part ''a'']
   \<and> srv_two (net world1 @ pushes client0 (Key (conf sink1)) [Part ''a''])
        (RPush client0 (Key (conf sink1)) (Get (Part ''b''))) = Some (RedisError ''i/o timeout'')
   \<and> Write srv_two (sink1, world1) [Part ''a'', Part ''b'', Part ''c''] =
       (Some ErrNotConnected, sink0,
        \<lparr>net = [Ping client0, RPush client0 ''jobs'' ''a'', RPush client0 ''jobs'' ''b'',
                Close client0],
         logged = [Infof ''jobs'', Errorf (RedisError ''i/o timeout'')], made = 1\<rparr>)
   \<and> Write srv_up (snd (Write srv_two (sink1, world1) [Part ''a'', Part ''b'', Part ''c'']))
        [Part ''d''] =
       (Some ErrNotConnected, snd (Write srv_two (sink1, world1) [Part ''a'', Part ''b'', Part ''c'']))"
proof -
  have h1: "client sink1 = Some client0"
    by (simp add: sink1_def)
  have h2: "all_pushes_ok srv_two (net world1) client0 (Key (conf sink1)) [Part ''a'']"
    by (simp add: srv_two_def world1_def)
  have h3: "srv_two (net world1 @ pushes client0 (Key (conf sink1)) [Part ''a''])
        (RPush client0 (Key (conf sink1)) (Get (Part ''b''))) = Some (RedisError ''i/o timeout'')"
    by (simp add: srv_two_def world1_def pushes_def)
  note w = Write_first_failure [OF h1 h2 h3, of "[Part ''c'']" srv_up "[Part ''d'']"]
  from w [THEN conjunct1] have a: "Write srv_two (sink1, world1) [Part ''a'', Part ''b'', Part ''c''] =
       (Some ErrNotConnected, sink0,
        \<lparr>net = [Ping client0, RPush client0 ''jobs'' ''a'', RPush client0 ''jobs'' ''b'',
                Close client0],
         logged = [Infof ''jobs'', Errorf (RedisError ''i/o timeout'')], made = 1\<rparr>)"
    by (simp add: pushes_def sink1_def sink0_def world1_def sample_conf_def)
  from w [THEN conjunct2] have b: "Write srv_up (snd (Write srv_two (sink1, world1) [Part ''a'', Part ''b'', Part ''c'']))
        [Part ''d''] =
       (Some ErrNotConnected, snd (Write srv_two (sink1, world1) [Part ''a'', Part ''b'', Part ''c'']))"
    by simp
  from h1 h2 h3 a b show ?thesis by blast
qed

text \<open>
  C3. Without a stored client \<^verbatim>\<open>Write\<close> returns \<^verbatim>\<open>ErrNotConnected\<close> and leaves the
  writer and the world as they were: no operation is issued, whatever the message and
  the server. This is the case of a writer fresh from its constructor, and of a writer
  after \<^verbatim>\<open>disconnect\<close>.
\<close>

theorem Write_not_connected:
  "(client r = None \<longrightarrow> Write srv (r, w) msg = (Some ErrNotConnected, r, w))
   \<and> (NewRedisList cf parsed = Inr r0 \<longrightarrow> Write srv (r0, w) msg = (Some ErrNotConnected, r0, w))
   \<and> Write srv (snd (disconnect srv' st)) msg = (Some ErrNotConnected, snd (disconnect srv' st))"
proof (intro conjI impI)
  show "Write srv (r, w) msg = (Some ErrNotConnected, r, w)" if "client r = None"
    using that by (simp add: Write_def)
  show "Write srv (r0, w) msg = (Some ErrNotConnected, r0, w)" if "NewRedisList cf parsed = Inr r0"
  proof -
    from that have "client r0 = None"
      by (auto simp: NewRedisList_def split: sum.splits)
    then show ?thesis by (simp add: Write_def)
  qed
  show "Write srv (snd (disconnect srv' st)) msg = (Some ErrNotConnected, snd (disconnect srv' st))"
    by (cases st) (simp add: Write_def disconnect_def issue_def split: option.splits)
qed

theorem Write_not_connected_witness:
  "client sink0 = None
   \<and> Write srv_up (sink0, world0) [Part ''a''] = (Some ErrNotConnected, sink0, world0)
   \<and> NewRedisList sample_conf (Inr sample_url) = Inr sink0
   \<and> Write srv_up (snd (disconnect srv_up (sink1, world1))) [Part ''a''] =
       (Some ErrNotConnected, sink0,
        \<lparr>net = [Ping client0, Close client0], logged = [Infof ''jobs''], made = 1\<rparr>)"
proof -
  have h1: "client sink0 = None"
    by (simp add: sink0_def)
  have h2: "NewRedisList sample_conf (Inr sample_url) = Inr sink0"
    by (simp add: NewRedisList_def sink0_def)
  have d: "snd (disconnect srv_up (sink1, world1)) =
      (sink0, \<lparr>net = [Ping client0, Close client0], logged = [Infof ''jobs''], made = 1\<rparr>)"
    by (simp add: disconnect_def issue_def sink1_def sink0_def world1_def)
  note t = Write_not_connected [of sink0 srv_up world0 "[Part ''a'']" sample_conf "Inr sample_url"
      sink0 srv_up "(sink1, world1)"]
  from t h1 have a: "Write srv_up (sink0, world0) [Part ''a''] = (Some ErrNotConnected, sink0, world0)"
    by blast
  from t have "Write srv_up (snd (disconnect srv_up (sink1, world1))) [Part ''a''] =
       (Some ErrNotConnected, snd (disconnect srv_up (sink1, world1)))"
    by blast
  with d have b: "Write srv_up (snd (disconnect srv_up (sink1, world1))) [Part ''a''] =
       (Some ErrNotConnected, sink0,
        \<lparr>net = [Ping client0, Close client0], logged = [Infof ''jobs''], made = 1\<rparr>)"
    by simp
  from h1 a h2 b show ?thesis by blast
qed

text \<open>
  C10. On a writer that holds a client, \<^verbatim>\<open>Write\<close> of a message without parts returns
  \<^verbatim>\<open>nil\<close> and leaves the writer and the world as they were: no push is issued and the
  stored client stays.
\<close>

theorem Write_no_parts:
  "client r = Some c \<Longrightarrow> Write srv (r, w) [] = (None, r, w)"
  by (simp add: Write_def)

theorem Write_no_parts_witness:
  "client sink1 = Some client0 \<and> Write srv_down (sink1, world1) [] = (None, sink1, world1)"
proof -
  have h: "client sink1 = Some client0"
    by (simp add: sink1_def)
  from Write_no_parts [OF h] have "Write srv_down (sink1, world1) [] = (None, sink1, world1)" .
  with h show ?thesis by simp
qed

subsection \<open>Disconnecting\<close>

lemma disconnect_None: "client r = None \<Longrightarrow> disconnect srv (r, w) = (None, r, w)"
  by (simp add: disconnect_def)

lemma disconnect_Some:
  "client r = Some c \<Longrightarrow>
   disconnect srv (r, w) = (srv (net w) (Close c), r\<lparr>client := None\<rparr>, w\<lparr>net := net w @ [Close c]\<rparr>)"
  by (simp add: disconnect_def issue_def)

lemma client_after_disconnect: "client (fst (snd (disconnect srv st))) = None"
  by (cases st) (simp add: disconnect_def issue_def split: option.splits)

text \<open>
  C7. Without a stored client \<^verbatim>\<open>disconnect\<close> returns \<^verbatim>\<open>nil\<close> and changes nothing.
  After any \<^verbatim>\<open>disconnect\<close> the stored client is cleared, whether or not closing it
  returned an error, so a second \<^verbatim>\<open>disconnect\<close> right after it returns \<^verbatim>\<open>nil\<close> and
  changes nothing.
\<close>

theorem disconnect_idempotent:
  "(client r = None \<longrightarrow> disconnect srv (r, w) = (None, r, w))
   \<and> client (fst (snd (disconnect srv (r, w)))) = None
   \<and> disconnect srv (snd (disconnect srv (r, w))) = (None, snd (disconnect srv (r, w)))"
proof (intro conjI impI)
  show "disconnect srv (r, w) = (None, r, w)" if "client r = None"
    using that by (rule disconnect_None)
  show c: "client (fst (snd (disconnect srv (r, w)))) = None"
    by (rule client_after_disconnect)
  obtain e r' w' where d: "disconnect srv (r, w) = (e, r', w')"
    by (cases "disconnect srv (r, w)") auto
  with c have "client r' = None" by simp
  then have "disconnect srv (r', w') = (None, r', w')"
    by (rule disconnect_None)
  with d show "disconnect srv (snd (disconnect srv (r, w))) = (None, snd (disconnect srv (r, w)))"
    by simp
qed

theorem disconnect_idempotent_witness:
  "client sink0 = None
   \<and> disconnect srv_broken (sink0, world0) = (None, sink0, world0)
   \<and> disconnect srv_broken (sink1, world1) =
       (Some (RedisError ''close failed''), sink0,
        \<lparr>net = [Ping client0, Close client0], logged = [Infof ''jobs''], made = 1\<rparr>)
   \<and> client (fst (snd (disconnect srv_broken (sink1, world1)))) = None
   \<and> disconnect srv_broken (snd (disconnect srv_broken (sink1, world1))) =
       (None, snd (disconnect srv_broken (sink1, world1)))"
proof -
  have h: "client sink0 = None"
    by (simp add: sink0_def)
  have d: "disconnect srv_broken (sink1, world1) =
       (Some (RedisError ''close failed''), sink0,
        \<lparr>net = [Ping client0, Close client0], logged = [Infof ''jobs''], made = 1\<rparr>)"
    by (simp add: disconnect_def issue_def srv_broken_def sink1_def sink0_def world1_def)
  from disconnect_idempotent [of sink0 srv_broken world0] h
  have a: "disconnect srv_broken (sink0, world0) = (None, sink0, world0)"
    by blast
  from disconnect_idempotent [of sink1 srv_broken world1]
  have b: "client (fst (snd (disconnect srv_broken (sink1, world1)))) = None
     \<and> disconnect srv_broken (snd (disconnect srv_broken (sink1, world1))) =
       (None, snd (disconnect srv_broken (sink1, world1)))"
    by blast
  from h a d b show ?thesis by blast
qed

subsection \<open>Connecting\<close>

lemma Connect_bad_db:
  "redisDB b (url r) = Inl e \<Longrightarrow> Connect b srv (r, w) = (Some e, r, w)"
  by (simp add: Connect_def)

lemma Connect_ping_fails:
  "redisDB b (url r) = Inr db \<Longrightarrow> srv (net w) (Ping (next_client r db w)) = Some e \<Longrightarrow>
   Connect b srv (r, w) =
     (Some e, r, w\<lparr>made := Suc (made w), net := net w @ [Ping (next_client r db w)]\<rparr>)"
  by (simp add: Connect_def NewClient_def issue_def next_client_def)

lemma Connect_ping_ok:
  "redisDB b (url r) = Inr db \<Longrightarrow> srv (net w) (Ping (next_client r db w)) = None \<Longrightarrow>
   Connect b srv (r, w) =
     (None, r\<lparr>client := Some (next_client r db w)\<rparr>,
      w\<lparr>made := Suc (made w), net := net w @ [Ping (next_client r db w)],
        logged := logged w @ [Infof (Key (conf r))]\<rparr>)"
  by (simp add: Connect_def NewClient_def issue_def next_client_def log_line_def)

lemma Connect_error_keeps_writer:
  assumes "fst (Connect b srv (r, w)) \<noteq> None"
  shows "fst (snd (Connect b srv (r, w))) = r"
proof (cases "redisDB b (url r)")
  case (Inl e)
  then show ?thesis by (simp add: Connect_bad_db)
next
  case (Inr db)
  show ?thesis
  proof (cases "srv (net w) (Ping (next_client r db w))")
    case None
    with Inr assms show ?thesis by (simp add: Connect_ping_ok)
  next
    case (Some e)
    with Inr show ?thesis by (simp add: Connect_ping_fails)
  qed
qed

text \<open>
  C6, as the code has it. When the ping of \<^verbatim>\<open>Connect\<close> fails with an error, \<^verbatim>\<open>Connect\<close>
  returns that error and stores nothing: the writer is exactly what it was before the
  call. So a writer without a client stays without one, and a writer that held a client
  still holds that same client. Every failing \<^verbatim>\<open>Connect\<close> leaves the writer unchanged.
\<close>

theorem Connect_failure_keeps_client:
  "(redisDB b (url r) = Inr db \<longrightarrow> srv (net w) (Ping (next_client r db w)) = Some e \<longrightarrow>
      Connect b srv (r, w) =
        (Some e, r, w\<lparr>made := Suc (made w), net := net w @ [Ping (next_client r db w)]\<rparr>))
   \<and> (fst (Connect b srv (r, w)) \<noteq> None \<longrightarrow> fst (snd (Connect b srv (r, w))) = r)"
  using Connect_ping_fails [of b r db srv w e] Connect_error_keeps_writer [of b srv r w]
  by blast

theorem Connect_failure_keeps_client_witness:
  "redisDB 64 (url sink0) = Inr 2
   \<and> srv_down (net world0) (Ping (next_client sink0 2 world0)) = Some (RedisError ''connection refused'')
   \<and> Connect 64 srv_down (sink0, world0) =
       (Some (RedisError ''connection refused''), sink0,
        \<lparr>net = [Ping client0], logged = [], made = 1\<rparr>)
   \<and> fst (Connect 64 srv_down (sink1, world1)) \<noteq> None
   \<and> fst (snd (Connect 64 srv_down (sink1, world1))) = sink1"
proof -
  have h1: "redisDB 64 (url sink0) = Inr 2"
    by (simp add: redisDB_def atoi_defs sink0_def sample_url_def)
  have h2: "srv_down (net world0) (Ping (next_client sink0 2 world0)) = Some (RedisError ''connection refused'')"
    by (simp add: srv_down_def)
  have h3: "fst (Connect 64 srv_down (sink1, world1)) \<noteq> None"
    by (simp add: connect_defs atoi_defs sample_defs srv_down_def)
  from Connect_failure_keeps_client [of 64 sink0 2 srv_down world0 "RedisError ''connection refused''"] h1 h2
  have "Connect 64 srv_down (sink0, world0) =
        (Some (RedisError ''connection refused''), sink0,
         world0\<lparr>made := Suc (made world0), net := net world0 @ [Ping (next_client sink0 2 world0)]\<rparr>)"
    by blast
  then have a: "Connect 64 srv_down (sink0, world0) =
       (Some (RedisError ''connection refused''), sink0,
        \<lparr>net = [Ping client0], logged = [], made = 1\<rparr>)"
    by (simp add: next_client_def redis_options_def url_pass_def sample_defs)
  from Connect_failure_keeps_client [of 64 sink1 2 srv_down world1 "RedisError ''connection refused''"] h3
  have b: "fst (snd (Connect 64 srv_down (sink1, world1))) = sink1"
    by blast
  from h1 h2 a h3 b show ?thesis by blast
qed

text \<open>
  The claim C6 as it was stated fails: a writer that holds a client from a first
  \<^verbatim>\<open>Connect\<close> still holds it after a second \<^verbatim>\<open>Connect\<close> whose ping fails.
\<close>

theorem Connect_failure_not_unconnected:
  "Connect 64 srv_up (sink0, world0) = (None, sink1, world1)
   \<and> fst (Connect 64 srv_down (sink1, world1)) = Some (RedisError ''connection refused'')
   \<and> client (fst (snd (Connect 64 srv_down (sink1, world1)))) = Some client0"
  by (simp add: connect_defs atoi_defs sample_defs srv_up_def srv_down_def)

subsection \<open>Decimal numerals and \<^verbatim>\<open>strconv.Atoi\<close>\<close>

lemma of_char_digit: "d < 10 \<Longrightarrow> (of_char (char_of (48 + d :: nat)) :: nat) = 48 + d"
  by (simp add: of_char_of)

lemma isdigit_char_of: "d < 10 \<Longrightarrow> isdigit (char_of (48 + d :: nat))"
  by (simp add: isdigit_def of_char_digit)

lemma digit_val_char_of: "d < 10 \<Longrightarrow> digit_val (char_of (48 + d :: nat)) = d"
  by (simp add: digit_val_def of_char_digit)

lemma decval_snoc: "decval (ds @ [c]) = decval ds * 10 + digit_val c"
  by (simp add: decval_def)

lemma decimal_digits: "list_all isdigit (decimal n)"
proof (induction n rule: decimal.induct)
  case (1 n)
  show ?case
  proof (cases "n < 10")
    case True
    then show ?thesis by (simp add: decimal.simps [of n] isdigit_char_of)
  next
    case False
    with 1 have "list_all isdigit (decimal (n div 10))" by simp
    with False show ?thesis by (simp add: decimal.simps [of n] isdigit_char_of)
  qed
qed

lemma decimal_nonempty: "decimal n \<noteq> []"
  by (simp add: decimal.simps [of n])

lemma decval_decimal: "decval (decimal n) = n"
proof (induction n rule: decimal.induct)
  case (1 n)
  show ?case
  proof (cases "n < 10")
    case True
    then show ?thesis by (simp add: decimal.simps [of n] decval_def digit_val_char_of)
  next
    case False
    with 1 have "decval (decimal (n div 10)) = n div 10" by simp
    with False show ?thesis by (simp add: decimal.simps [of n] decval_snoc digit_val_char_of)
  qed
qed

lemma digits_no_sign:
  assumes "ds \<noteq> []" and "list_all isdigit ds"
  shows "take 1 ds \<noteq> ''-''" and "take 1 ds \<noteq> ''+''"
proof -
  from assms obtain d rest where ds: "ds = d # rest" and d: "isdigit d"
    by (cases ds) auto
  from d have "d \<noteq> CHR ''-''" and "d \<noteq> CHR ''+''"
    by (auto simp: isdigit_def)
  with ds show "take 1 ds \<noteq> ''-''" and "take 1 ds \<noteq> ''+''" by simp_all
qed

lemma Atoi_digits:
  assumes "ds \<noteq> []" and "list_all isdigit ds" and "decval ds < 2 ^ (b - 1)"
  shows "strconv_Atoi b ds = Inr (int (decval ds))"
  using assms digits_no_sign [OF assms(1,2)]
  by (simp add: strconv_Atoi_def)

lemma Atoi_minus_digits:
  assumes "ds \<noteq> []" and "list_all isdigit ds" and "decval ds \<le> 2 ^ (b - 1)"
  shows "strconv_Atoi b (CHR ''-'' # ds) = Inr (- int (decval ds))"
  using assms by (simp add: strconv_Atoi_def)

text \<open>\<^verbatim>\<open>strconv.Atoi\<close> returns a number only for a signed decimal numeral in range.\<close>

lemma Atoi_Inr_literal:
  assumes "strconv_Atoi b s = Inr z"
  shows "\<exists>ds. ds \<noteq> [] \<and> list_all isdigit ds \<and>
           ((s = ds \<or> s = CHR ''+'' # ds) \<and> z = int (decval ds) \<and> decval ds < 2 ^ (b - 1)
            \<or> s = CHR ''-'' # ds \<and> z = - int (decval ds) \<and> decval ds \<le> 2 ^ (b - 1))"
proof (cases s)
  case Nil
  with assms show ?thesis by (simp add: strconv_Atoi_def)
next
  case (Cons c cs)
  consider "c = CHR ''-''" | "c = CHR ''+''" | "c \<noteq> CHR ''-''" "c \<noteq> CHR ''+''" by blast
  then show ?thesis
  proof cases
    case 1
    with assms Cons show ?thesis
      by (intro exI [of _ cs]) (auto simp: strconv_Atoi_def Let_def split: if_splits)
  next
    case 2
    with assms Cons show ?thesis
      by (intro exI [of _ cs]) (auto simp: strconv_Atoi_def Let_def split: if_splits)
  next
    case 3
    with assms Cons show ?thesis
      by (intro exI [of _ s]) (auto simp: strconv_Atoi_def Let_def split: if_splits)
  qed
qed

lemma Atoi_decimal: "n < 2 ^ (b - 1) \<Longrightarrow> strconv_Atoi b (decimal n) = Inr (int n)"
  using Atoi_digits [of "decimal n" b]
  by (simp add: decimal_digits decimal_nonempty decval_decimal)

lemma Atoi_minus_decimal:
  "n \<le> 2 ^ (b - 1) \<Longrightarrow> strconv_Atoi b (CHR ''-'' # decimal n) = Inr (- int n)"
  using Atoi_minus_digits [of "decimal n" b]
  by (simp add: decimal_digits decimal_nonempty decval_decimal)

subsection \<open>The database index\<close>

lemma redisDB_short: "length (Path u) \<le> 1 \<Longrightarrow> redisDB b u = Inr 0"
  by (simp add: redisDB_def)

lemma redisDB_error:
  "1 < length (Path u) \<Longrightarrow> strconv_Atoi b (drop 1 (Path u)) = Inl x \<Longrightarrow>
   redisDB b u = Inl (invalid_db (Path u))"
  by (simp add: redisDB_def)

lemma redisDB_decimal:
  "n < 2 ^ (b - 1) \<Longrightarrow> redisDB b (u\<lparr>Path := CHR ''/'' # decimal n\<rparr>) = Inr (int n)"
  using decimal_nonempty [of n] by (simp add: redisDB_def Atoi_decimal Suc_lessI)

lemma redisDB_minus_decimal:
  "n \<le> 2 ^ (b - 1) \<Longrightarrow>
   redisDB b (u\<lparr>Path := CHR ''/'' # CHR ''-'' # decimal n\<rparr>) = Inr (- int n)"
  by (simp add: redisDB_def Atoi_minus_decimal)

lemma Connect_net:
  "redisDB b (url r) = Inr db \<Longrightarrow>
   net (snd (snd (Connect b srv (r, w)))) = net w @ [Ping (next_client r db w)]"
  by (cases "srv (net w) (Ping (next_client r db w))")
     (simp_all add: Connect_ping_ok Connect_ping_fails)

lemma Atoi_plus_digits:
  assumes "ds \<noteq> []" and "list_all isdigit ds" and "decval ds < 2 ^ (b - 1)"
  shows "strconv_Atoi b (CHR ''+'' # ds) = Inr (int (decval ds))"
  using assms by (simp add: strconv_Atoi_def)

lemma redisDB_not_literal:
  assumes "1 < length (Path u)"
    and "\<not> (\<exists>ds. ds \<noteq> [] \<and> list_all isdigit ds \<and>
            ((drop 1 (Path u) = ds \<or> drop 1 (Path u) = CHR ''+'' # ds) \<and> decval ds < 2 ^ (b - 1)
             \<or> drop 1 (Path u) = CHR ''-'' # ds \<and> decval ds \<le> 2 ^ (b - 1)))"
  shows "redisDB b u = Inl (invalid_db (Path u))"
proof (cases "strconv_Atoi b (drop 1 (Path u))")
  case (Inl x)
  with assms(1) show ?thesis by (rule redisDB_error)
next
  case (Inr z)
  from Atoi_Inr_literal [OF Inr] assms(2) have False by blast
  then show ?thesis ..
qed

lemma redisDB_literal:
  assumes "ds \<noteq> []" and "list_all isdigit ds"
  shows "decval ds < 2 ^ (b - 1) \<Longrightarrow> redisDB b (u\<lparr>Path := CHR ''/'' # ds\<rparr>) = Inr (int (decval ds))"
    and "decval ds < 2 ^ (b - 1) \<Longrightarrow>
         redisDB b (u\<lparr>Path := CHR ''/'' # CHR ''+'' # ds\<rparr>) = Inr (int (decval ds))"
    and "decval ds \<le> 2 ^ (b - 1) \<Longrightarrow>
         redisDB b (u\<lparr>Path := CHR ''/'' # CHR ''-'' # ds\<rparr>) = Inr (- int (decval ds))"
  using assms
  by (simp_all add: redisDB_def Atoi_digits Atoi_plus_digits Atoi_minus_digits Suc_lessI)

text \<open>
  C5, as the code has it. The database index is 0 for a path of at most one byte. For
  a longer path the code drops the first byte and gives the rest to
  \<^verbatim>\<open>strconv.Atoi\<close>. Unless the rest is a decimal numeral with an optional sign whose
  value fits \<^verbatim>\<open>int\<close>, \<^verbatim>\<open>Connect\<close> fails with the error that names the whole path. If
  it is one, the index is its value: a non-negative one for digits alone or after
  \<^verbatim>\<open>+\<close>, and a negative one after \<^verbatim>\<open>-\<close>, so negative indices are accepted. In
  particular the path \<^verbatim>\<open>/N\<close> gives \<open>N\<close> for every \<open>N\<close> below \<open>2 ^ (intSize - 1)\<close>, and the
  path \<^verbatim>\<open>/-N\<close> gives \<open>- N\<close> for every \<open>N\<close> up to \<open>2 ^ (intSize - 1)\<close>. The index found
  is the \<^verbatim>\<open>DB\<close> of the options of the client that \<^verbatim>\<open>Connect\<close> pings.
\<close>

theorem redisDB_resolution:
  "(length (Path u) \<le> 1 \<longrightarrow> redisDB b u = Inr 0)
   \<and> (n < 2 ^ (b - 1) \<longrightarrow> redisDB b (u\<lparr>Path := CHR ''/'' # decimal n\<rparr>) = Inr (int n))
   \<and> (n \<le> 2 ^ (b - 1) \<longrightarrow>
        redisDB b (u\<lparr>Path := CHR ''/'' # CHR ''-'' # decimal n\<rparr>) = Inr (- int n))
   \<and> (1 < length (Path u) \<longrightarrow>
        \<not> (\<exists>ds. ds \<noteq> [] \<and> list_all isdigit ds \<and>
            ((drop 1 (Path u) = ds \<or> drop 1 (Path u) = CHR ''+'' # ds) \<and> decval ds < 2 ^ (b - 1)
             \<or> drop 1 (Path u) = CHR ''-'' # ds \<and> decval ds \<le> 2 ^ (b - 1))) \<longrightarrow>
        redisDB b u = Inl (invalid_db (Path u)))
   \<and> (ds \<noteq> [] \<longrightarrow> list_all isdigit ds \<longrightarrow>
        (decval ds < 2 ^ (b - 1) \<longrightarrow>
           redisDB b (u\<lparr>Path := CHR ''/'' # ds\<rparr>) = Inr (int (decval ds))
           \<and> redisDB b (u\<lparr>Path := CHR ''/'' # CHR ''+'' # ds\<rparr>) = Inr (int (decval ds)))
        \<and> (decval ds \<le> 2 ^ (b - 1) \<longrightarrow>
           redisDB b (u\<lparr>Path := CHR ''/'' # CHR ''-'' # ds\<rparr>) = Inr (- int (decval ds))))
   \<and> (redisDB b (url r) = Inr db \<longrightarrow>
        net (snd (snd (Connect b srv (r, w)))) = net w @ [Ping (next_client r db w)]
        \<and> DB (opt (next_client r db w)) = db)"
proof (intro conjI impI)
  show "redisDB b u = Inr 0" if "length (Path u) \<le> 1"
    using that by (rule redisDB_short)
  show "redisDB b (u\<lparr>Path := CHR ''/'' # decimal n\<rparr>) = Inr (int n)" if "n < 2 ^ (b - 1)"
    using that by (rule redisDB_decimal)
  show "redisDB b (u\<lparr>Path := CHR ''/'' # CHR ''-'' # decimal n\<rparr>) = Inr (- int n)"
    if "n \<le> 2 ^ (b - 1)"
    using that by (rule redisDB_minus_decimal)
  show "redisDB b u = Inl (invalid_db (Path u))"
    if "1 < length (Path u)"
      and "\<not> (\<exists>ds. ds \<noteq> [] \<and> list_all isdigit ds \<and>
            ((drop 1 (Path u) = ds \<or> drop 1 (Path u) = CHR ''+'' # ds) \<and> decval ds < 2 ^ (b - 1)
             \<or> drop 1 (Path u) = CHR ''-'' # ds \<and> decval ds \<le> 2 ^ (b - 1)))"
    using that by (rule redisDB_not_literal)
  show "redisDB b (u\<lparr>Path := CHR ''/'' # ds\<rparr>) = Inr (int (decval ds))"
    if "ds \<noteq> []" and "list_all isdigit ds" and "decval ds < 2 ^ (b - 1)"
    using that by (rule redisDB_literal(1))
  show "redisDB b (u\<lparr>Path := CHR ''/'' # CHR ''+'' # ds\<rparr>) = Inr (int (decval ds))"
    if "ds \<noteq> []" and "list_all isdigit ds" and "decval ds < 2 ^ (b - 1)"
    using that by (rule redisDB_literal(2))
  show "redisDB b (u\<lparr>Path := CHR ''/'' # CHR ''-'' # ds\<rparr>) = Inr (- int (decval ds))"
    if "ds \<noteq> []" and "list_all isdigit ds" and "decval ds \<le> 2 ^ (b - 1)"
    using that by (rule redisDB_literal(3))
  show "net (snd (snd (Connect b srv (r, w)))) = net w @ [Ping (next_client r db w)]"
    if "redisDB b (url r) = Inr db"
    using that by (rule Connect_net)
  show "DB (opt (next_client r db w)) = db"
    by (simp add: next_client_def redis_options_def)
qed

theorem redisDB_resolution_witness:
  "length (Path (sample_url\<lparr>Path := ''/''\<rparr>)) \<le> 1
   \<and> redisDB 64 (sample_url\<lparr>Path := ''/''\<rparr>) = Inr 0
   \<and> (120 :: nat) < 2 ^ (64 - 1)
   \<and> redisDB 64 (sample_url\<lparr>Path := ''/120''\<rparr>) = Inr 120
   \<and> (5 :: nat) \<le> 2 ^ (64 - 1)
   \<and> redisDB 64 (sample_url\<lparr>Path := ''/-5''\<rparr>) = Inr (- 5)
   \<and> 1 < length (Path abc_url)
   \<and> \<not> (\<exists>ds. ds \<noteq> [] \<and> list_all isdigit ds \<and>
            ((drop 1 (Path abc_url) = ds \<or> drop 1 (Path abc_url) = CHR ''+'' # ds)
               \<and> decval ds < 2 ^ (64 - 1)
             \<or> drop 1 (Path abc_url) = CHR ''-'' # ds \<and> decval ds \<le> 2 ^ (64 - 1)))
   \<and> redisDB 64 abc_url = Inl (invalid_db ''/abc'')
   \<and> ''007'' \<noteq> [] \<and> list_all isdigit ''007'' \<and> decval ''007'' < 2 ^ (64 - 1)
   \<and> redisDB 64 (sample_url\<lparr>Path := ''/007''\<rparr>) = Inr 7
   \<and> redisDB 64 (sample_url\<lparr>Path := ''/+007''\<rparr>) = Inr 7
   \<and> redisDB 64 (sample_url\<lparr>Path := ''/-007''\<rparr>) = Inr (- 7)
   \<and> redisDB 64 (url sink0) = Inr 2
   \<and> net (snd (snd (Connect 64 srv_up (sink0, world0)))) = [Ping client0]"
proof -
  note t = redisDB_resolution [of "sample_url\<lparr>Path := ''/''\<rparr>" 64 120 "''007''" sink0 2 srv_up world0]
  have h1: "length (Path (sample_url\<lparr>Path := ''/''\<rparr>)) \<le> 1"
    by simp
  from t h1 have a: "redisDB 64 (sample_url\<lparr>Path := ''/''\<rparr>) = Inr 0"
    by blast
  have h2: "(120 :: nat) < 2 ^ (64 - 1)"
    by simp
  have d120: "decimal 120 = ''120''"
    by code_simp
  from t h2 have "redisDB 64 (sample_url\<lparr>Path := ''/'', Path := CHR ''/'' # decimal 120\<rparr>) = Inr (int 120)"
    by blast
  then have b: "redisDB 64 (sample_url\<lparr>Path := ''/120''\<rparr>) = Inr 120"
    by (simp add: d120)
  have h3: "(5 :: nat) \<le> 2 ^ (64 - 1)"
    by simp
  have d5: "decimal 5 = ''5''"
    by code_simp
  from redisDB_resolution [of sample_url 64 5] h3
  have "redisDB 64 (sample_url\<lparr>Path := CHR ''/'' # CHR ''-'' # decimal 5\<rparr>) = Inr (- int 5)"
    by blast
  then have c: "redisDB 64 (sample_url\<lparr>Path := ''/-5''\<rparr>) = Inr (- 5)"
    by (simp add: d5)
  have h4: "1 < length (Path abc_url)"
    by (simp add: abc_url_def)
  have h5: "\<not> (\<exists>ds. ds \<noteq> [] \<and> list_all isdigit ds \<and>
            ((drop 1 (Path abc_url) = ds \<or> drop 1 (Path abc_url) = CHR ''+'' # ds)
               \<and> decval ds < 2 ^ (64 - 1)
             \<or> drop 1 (Path abc_url) = CHR ''-'' # ds \<and> decval ds \<le> 2 ^ (64 - 1)))"
    by (auto simp: abc_url_def isdigit_def)
  from redisDB_resolution [of abc_url 64] h4 h5
  have "redisDB 64 abc_url = Inl (invalid_db (Path abc_url))"
    by blast
  then have d: "redisDB 64 abc_url = Inl (invalid_db ''/abc'')"
    by (simp add: abc_url_def)
  have h6: "''007'' \<noteq> []" and h7: "list_all isdigit ''007''"
    and h8: "decval ''007'' < 2 ^ (64 - 1)" and v: "decval ''007'' = 7"
    by (simp_all add: isdigit_def decval_def digit_val_def)
  from h8 have h9: "decval ''007'' \<le> 2 ^ (64 - 1)"
    by simp
  from t h6 h7 h8 h9
  have "redisDB 64 (sample_url\<lparr>Path := ''/'', Path := CHR ''/'' # ''007''\<rparr>) = Inr (int (decval ''007''))"
    and "redisDB 64 (sample_url\<lparr>Path := ''/'', Path := CHR ''/'' # CHR ''+'' # ''007''\<rparr>) = Inr (int (decval ''007''))"
    and "redisDB 64 (sample_url\<lparr>Path := ''/'', Path := CHR ''/'' # CHR ''-'' # ''007''\<rparr>) = Inr (- int (decval ''007''))"
    by blast+
  then have e: "redisDB 64 (sample_url\<lparr>Path := ''/007''\<rparr>) = Inr 7"
    and f: "redisDB 64 (sample_url\<lparr>Path := ''/+007''\<rparr>) = Inr 7"
    and g: "redisDB 64 (sample_url\<lparr>Path := ''/-007''\<rparr>) = Inr (- 7)"
    by (simp_all add: v)
  have h10: "redisDB 64 (url sink0) = Inr 2"
    by (simp add: redisDB_def atoi_defs sink0_def sample_url_def)
  from t h10 have "net (snd (snd (Connect 64 srv_up (sink0, world0)))) = net world0 @ [Ping (next_client sink0 2 world0)]"
    by blast
  then have i: "net (snd (snd (Connect 64 srv_up (sink0, world0)))) = [Ping client0]"
    by (simp add: next_client_def redis_options_def url_pass_def sample_defs)
  from h1 a h2 b h3 c h4 h5 d h6 h7 h8 e f g h10 i show ?thesis by blast
qed

text \<open>
  The claim C5 as it was stated fails on a negative index: the path \<^verbatim>\<open>/-5\<close> is not a
  non-negative integer, yet it gives the index \<open>- 5\<close> and \<^verbatim>\<open>Connect\<close> goes on to ping
  with it and succeeds.
\<close>

theorem negative_index_accepted:
  "redisDB 64 minus5_url = Inr (- 5)
   \<and> fst (Connect 64 srv_up (\<lparr>url = minus5_url, conf = NewRedisListConfig, client = None\<rparr>, world0)) = None"
  by (simp add: connect_defs atoi_defs minus5_url_def world0_def srv_up_def)

subsection \<open>Construction\<close>

lemma Connect_bad_db_again:
  assumes "redisDB b (url r) = Inl e"
  shows "((\<lambda>st. snd (Connect b srv st)) ^^ n) (r, w) = (r, w)"
proof (induction n)
  case 0
  show ?case by simp
next
  case (Suc n)
  then show ?case using assms by (simp add: Connect_bad_db)
qed

text \<open>
  C4, as the code has it. The constructor only takes over what \<^verbatim>\<open>url.Parse\<close> returns:
  it fails with the error of \<^verbatim>\<open>url.Parse\<close>, and then there is no writer at all;
  otherwise it succeeds with a writer that holds that URL and no client, whatever the
  path is. The database index is read from the path by \<^verbatim>\<open>Connect\<close>, at every call.
  When the path is longer than one byte and \<^verbatim>\<open>strconv.Atoi\<close> fails on the rest of it,
  the constructor succeeds and every \<^verbatim>\<open>Connect\<close> on the writer returns the error that
  names the path, before any client is made and any operation issued; the writer never
  gets a client, however often \<^verbatim>\<open>Connect\<close> is called.
\<close>

theorem construction_takes_parsed_url:
  "NewRedisList cf (Inl e) = Inl e
   \<and> NewRedisList cf (Inr u) = Inr \<lparr>url = u, conf = cf, client = None\<rparr>
   \<and> (1 < length (Path u) \<longrightarrow> strconv_Atoi b (drop 1 (Path u)) = Inl x \<longrightarrow>
        Connect b srv (\<lparr>url = u, conf = cf, client = None\<rparr>, w) =
          (Some (invalid_db (Path u)), \<lparr>url = u, conf = cf, client = None\<rparr>, w)
        \<and> ((\<lambda>st. snd (Connect b srv st)) ^^ n) (\<lparr>url = u, conf = cf, client = None\<rparr>, w) =
            (\<lparr>url = u, conf = cf, client = None\<rparr>, w))"
proof (intro conjI impI)
  show "NewRedisList cf (Inl e) = Inl e"
    by (simp add: NewRedisList_def)
  show "NewRedisList cf (Inr u) = Inr \<lparr>url = u, conf = cf, client = None\<rparr>"
    by (simp add: NewRedisList_def)
  let ?r = "\<lparr>url = u, conf = cf, client = None\<rparr>"
  assume "1 < length (Path u)" and "strconv_Atoi b (drop 1 (Path u)) = Inl x"
  then have bad: "redisDB b (url ?r) = Inl (invalid_db (Path u))"
    by (simp add: redisDB_error)
  from bad show "Connect b srv (?r, w) = (Some (invalid_db (Path u)), ?r, w)"
    by (rule Connect_bad_db)
  from bad show "((\<lambda>st. snd (Connect b srv st)) ^^ n) (?r, w) = (?r, w)"
    by (rule Connect_bad_db_again)
qed

theorem construction_takes_parsed_url_witness:
  "NewRedisList abc_conf (Inl (UrlError ''missing protocol scheme'')) =
     Inl (UrlError ''missing protocol scheme'')
   \<and> NewRedisList abc_conf (Inr abc_url) = Inr \<lparr>url = abc_url, conf = abc_conf, client = None\<rparr>
   \<and> 1 < length (Path abc_url)
   \<and> strconv_Atoi 64 (drop 1 (Path abc_url)) = Inl (ErrSyntax ''abc'')
   \<and> Connect 64 srv_up (\<lparr>url = abc_url, conf = abc_conf, client = None\<rparr>, world0) =
       (Some (invalid_db ''/abc''), \<lparr>url = abc_url, conf = abc_conf, client = None\<rparr>, world0)
   \<and> ((\<lambda>st. snd (Connect 64 srv_up st)) ^^ 3) (\<lparr>url = abc_url, conf = abc_conf, client = None\<rparr>, world0) =
       (\<lparr>url = abc_url, conf = abc_conf, client = None\<rparr>, world0)"
proof -
  note t = construction_takes_parsed_url [of abc_conf "UrlError ''missing protocol scheme''"
      abc_url 64 "ErrSyntax ''abc''" srv_up world0 3]
  have h1: "1 < length (Path abc_url)"
    by (simp add: abc_url_def)
  have h2: "strconv_Atoi 64 (drop 1 (Path abc_url)) = Inl (ErrSyntax ''abc'')"
    by (simp add: abc_url_def atoi_defs)
  have p: "Path abc_url = ''/abc''"
    by (simp add: abc_url_def)
  from t h1 h2 show ?thesis unfolding p by blast
qed

text \<open>
  The claim C4 as it was stated fails: for the endpoint \<^verbatim>\<open>tcp://localhost:6379/abc\<close>,
  whose path holds no integer, the constructor succeeds; the path is read, and the
  error returned, by \<^verbatim>\<open>Connect\<close>.
\<close>

theorem construction_accepts_bad_index:
  "NewRedisList abc_conf (Inr abc_url) = Inr \<lparr>url = abc_url, conf = abc_conf, client = None\<rparr>
   \<and> Connect 64 srv_up (\<lparr>url = abc_url, conf = abc_conf, client = None\<rparr>, world0) =
       (Some (invalid_db ''/abc''), \<lparr>url = abc_url, conf = abc_conf, client = None\<rparr>, world0)"
  by (simp add: NewRedisList_def connect_defs atoi_defs abc_url_def)

subsection \<open>Which errors reach the caller\<close>

text \<open>
  C8, as the code has it. A failure of \<^verbatim>\<open>url.Parse\<close> in the constructor, of the
  database index or the ping in \<^verbatim>\<open>Connect\<close>, and of the close in \<^verbatim>\<open>disconnect\<close> is
  returned by that call. \<^verbatim>\<open>Write\<close> returns \<^verbatim>\<open>ErrNotConnected\<close> without a client, and
  whenever a push fails: then it logs the error of the push and nothing else. The
  \<^verbatim>\<open>disconnect\<close> that \<^verbatim>\<open>Write\<close> calls after the failed push returns what the server
  answers to the close, and \<^verbatim>\<open>Write\<close> drops it: whatever that answer is, an error of
  the close is neither returned nor logged.
\<close>

theorem failures_returned:
  "NewRedisList cf (Inl e) = Inl e
   \<and> (redisDB b (url r) = Inl e \<longrightarrow> fst (Connect b srv (r, w)) = Some e)
   \<and> (redisDB b (url r) = Inr db \<longrightarrow> srv (net w) (Ping (next_client r db w)) = Some e \<longrightarrow>
        fst (Connect b srv (r, w)) = Some e)
   \<and> (client r = Some c \<longrightarrow> srv (net w) (Close c) = Some e \<longrightarrow>
        fst (disconnect srv (r, w)) = Some e)
   \<and> (client r = None \<longrightarrow> fst (Write srv (r, w) msg) = Some ErrNotConnected)
   \<and> (client r = Some c \<longrightarrow> all_pushes_ok srv (net w) c (Key (conf r)) pre \<longrightarrow>
        srv (net w @ pushes c (Key (conf r)) pre) (RPush c (Key (conf r)) (Get p)) = Some e \<longrightarrow>
        Write srv (r, w) (pre @ p # post) =
          (Some ErrNotConnected, r\<lparr>client := None\<rparr>,
           w\<lparr>net := net w @ pushes c (Key (conf r)) (pre @ [p]) @ [Close c],
             logged := logged w @ [Errorf e]\<rparr>)
        \<and> fst (disconnect srv (r, w\<lparr>net := net w @ pushes c (Key (conf r)) (pre @ [p])\<rparr>)) =
            srv (net w @ pushes c (Key (conf r)) (pre @ [p])) (Close c))"
proof (intro conjI impI)
  show "NewRedisList cf (Inl e) = Inl e"
    by (simp add: NewRedisList_def)
  show "fst (Connect b srv (r, w)) = Some e" if "redisDB b (url r) = Inl e"
    using that by (simp add: Connect_bad_db)
  show "fst (Connect b srv (r, w)) = Some e"
    if "redisDB b (url r) = Inr db" and "srv (net w) (Ping (next_client r db w)) = Some e"
    using that by (simp add: Connect_ping_fails)
  show "fst (disconnect srv (r, w)) = Some e"
    if "client r = Some c" and "srv (net w) (Close c) = Some e"
    using that by (simp add: disconnect_Some)
  show "fst (Write srv (r, w) msg) = Some ErrNotConnected" if "client r = None"
    using that by (simp add: Write_def)
  show "Write srv (r, w) (pre @ p # post) =
          (Some ErrNotConnected, r\<lparr>client := None\<rparr>,
           w\<lparr>net := net w @ pushes c (Key (conf r)) (pre @ [p]) @ [Close c],
             logged := logged w @ [Errorf e]\<rparr>)"
    if "client r = Some c" and "all_pushes_ok srv (net w) c (Key (conf r)) pre"
      and "srv (net w @ pushes c (Key (conf r)) pre) (RPush c (Key (conf r)) (Get p)) = Some e"
    using that by (simp add: Write_def Iter_first_failure)
  show "fst (disconnect srv (r, w\<lparr>net := net w @ pushes c (Key (conf r)) (pre @ [p])\<rparr>)) =
            srv (net w @ pushes c (Key (conf r)) (pre @ [p])) (Close c)"
    if "client r = Some c"
    using that by (simp add: disconnect_Some)
qed

theorem failures_returned_witness:
  "redisDB 64 (url \<lparr>url = abc_url, conf = abc_conf, client = None\<rparr>) = Inl (invalid_db ''/abc'')
   \<and> fst (Connect 64 srv_up (\<lparr>url = abc_url, conf = abc_conf, client = None\<rparr>, world0)) =
       Some (invalid_db ''/abc'')
   \<and> redisDB 64 (url sink0) = Inr 2
   \<and> srv_down (net world0) (Ping (next_client sink0 2 world0)) = Some (RedisError ''connection refused'')
   \<and> fst (Connect 64 srv_down (sink0, world0)) = Some (RedisError ''connection refused'')
   \<and> client sink1 = Some client0
   \<and> srv_broken (net world1) (Close client0) = Some (RedisError ''close failed'')
   \<and> fst (disconnect srv_broken (sink1, world1)) = Some (RedisError ''close failed'')
   \<and> client sink0 = None
   \<and> fst (Write srv_up (sink0, world0) [Part ''a'']) = Some ErrNotConnected
   \<and> all_pushes_ok srv_broken (net world1) client0 (Key (conf sink1)) []
   \<and> srv_broken (net world1 @ pushes client0 (Key (conf sink1)) [])
        (RPush client0 (Key (conf sink1)) (Get (Part ''a''))) = Some (RedisError ''broken pipe'')
   \<and> Write srv_broken (sink1, world1) [Part ''a'', Part ''b''] =
       (Some ErrNotConnected, sink0,
        \<lparr>net = [Ping client0, RPush client0 ''jobs'' ''a'', Close client0],
         logged = [Infof ''jobs'', Errorf (RedisError ''broken pipe'')], made = 1\<rparr>)
   \<and> fst (disconnect srv_broken
             (sink1, \<lparr>net = [Ping client0, RPush client0 ''jobs'' ''a''],
                      logged = [Infof ''jobs''], made = 1\<rparr>)) =
       Some (RedisError ''close failed'')
   \<and> all_pushes_ok srv_no_push (net world1) client0 (Key (conf sink1)) []
   \<and> srv_no_push (net world1 @ pushes client0 (Key (conf sink1)) [])
        (RPush client0 (Key (conf sink1)) (Get (Part ''a''))) = Some (RedisError ''read only'')
   \<and> Write srv_no_push (sink1, world1) [Part ''a'', Part ''b''] =
       (Some ErrNotConnected, sink0,
        \<lparr>net = [Ping client0, RPush client0 ''jobs'' ''a'', Close client0],
         logged = [Infof ''jobs'', Errorf (RedisError ''read only'')], made = 1\<rparr>)
   \<and> fst (disconnect srv_no_push
             (sink1, \<lparr>net = [Ping client0, RPush client0 ''jobs'' ''a''],
                      logged = [Infof ''jobs''], made = 1\<rparr>)) = None"
proof -
  have h1: "redisDB 64 (url \<lparr>url = abc_url, conf = abc_conf, client = None\<rparr>) = Inl (invalid_db ''/abc'')"
    by (simp add: redisDB_def atoi_defs abc_url_def)
  from failures_returned [where b = 64 and r = "\<lparr>url = abc_url, conf = abc_conf, client = None\<rparr>"
      and e = "invalid_db ''/abc''" and srv = srv_up and w = world0] h1
  have a: "fst (Connect 64 srv_up (\<lparr>url = abc_url, conf = abc_conf, client = None\<rparr>, world0)) =
       Some (invalid_db ''/abc'')"
    by blast
  have h2: "redisDB 64 (url sink0) = Inr 2"
    by (simp add: redisDB_def atoi_defs sink0_def sample_url_def)
  have h3: "srv_down (net world0) (Ping (next_client sink0 2 world0)) = Some (RedisError ''connection refused'')"
    by (simp add: srv_down_def)
  from failures_returned [where b = 64 and r = sink0 and db = 2 and srv = srv_down and w = world0
      and e = "RedisError ''connection refused''"] h2 h3
  have b: "fst (Connect 64 srv_down (sink0, world0)) = Some (RedisError ''connection refused'')"
    by blast
  have h4: "client sink1 = Some client0"
    by (simp add: sink1_def)
  have h5: "srv_broken (net world1) (Close client0) = Some (RedisError ''close failed'')"
    by (simp add: srv_broken_def)
  from failures_returned [where r = sink1 and c = client0 and srv = srv_broken and w = world1
      and e = "RedisError ''close failed''"] h4 h5
  have c: "fst (disconnect srv_broken (sink1, world1)) = Some (RedisError ''close failed'')"
    by blast
  have h6: "client sink0 = None"
    by (simp add: sink0_def)
  from failures_returned [where r = sink0 and srv = srv_up and w = world0 and msg = "[Part ''a'']"] h6
  have d: "fst (Write srv_up (sink0, world0) [Part ''a'']) = Some ErrNotConnected"
    by blast
  have h7: "all_pushes_ok srv_broken (net world1) client0 (Key (conf sink1)) []"
    by simp
  have h8: "srv_broken (net world1 @ pushes client0 (Key (conf sink1)) [])
        (RPush client0 (Key (conf sink1)) (Get (Part ''a''))) = Some (RedisError ''broken pipe'')"
    by (simp add: srv_broken_def)
  from failures_returned [where r = sink1 and c = client0 and srv = srv_broken and w = world1
      and pre = "[]" and p = "Part ''a''" and post = "[Part ''b'']"
      and e = "RedisError ''broken pipe''"] h4 h7 h8
  have broken: "Write srv_broken (sink1, world1) ([] @ Part ''a'' # [Part ''b'']) =
          (Some ErrNotConnected, sink1\<lparr>client := None\<rparr>,
           world1\<lparr>net := net world1 @ pushes client0 (Key (conf sink1)) ([] @ [Part ''a'']) @ [Close client0],
             logged := logged world1 @ [Errorf (RedisError ''broken pipe'')]\<rparr>)
        \<and> fst (disconnect srv_broken
                 (sink1, world1\<lparr>net := net world1 @ pushes client0 (Key (conf sink1)) ([] @ [Part ''a''])\<rparr>)) =
            srv_broken (net world1 @ pushes client0 (Key (conf sink1)) ([] @ [Part ''a''])) (Close client0)"
    by blast
  from broken [THEN conjunct1]
  have e: "Write srv_broken (sink1, world1) [Part ''a'', Part ''b''] =
       (Some ErrNotConnected, sink0,
        \<lparr>net = [Ping client0, RPush client0 ''jobs'' ''a'', Close client0],
         logged = [Infof ''jobs'', Errorf (RedisError ''broken pipe'')], made = 1\<rparr>)"
    by (simp add: pushes_def sink1_def sink0_def world1_def sample_conf_def)
  from broken [THEN conjunct2]
  have f: "fst (disconnect srv_broken
             (sink1, \<lparr>net = [Ping client0, RPush client0 ''jobs'' ''a''],
                      logged = [Infof ''jobs''], made = 1\<rparr>)) =
       Some (RedisError ''close failed'')"
    by (simp add: pushes_def sink1_def world1_def sample_conf_def srv_broken_def)
  have h9: "all_pushes_ok srv_no_push (net world1) client0 (Key (conf sink1)) []"
    by simp
  have h10: "srv_no_push (net world1 @ pushes client0 (Key (conf sink1)) [])
        (RPush client0 (Key (conf sink1)) (Get (Part ''a''))) = Some (RedisError ''read only'')"
    by (simp add: srv_no_push_def)
  from failures_returned [where r = sink1 and c = client0 and srv = srv_no_push and w = world1
      and pre = "[]" and p = "Part ''a''" and post = "[Part ''b'']"
      and e = "RedisError ''read only''"] h4 h9 h10
  have quiet: "Write srv_no_push (sink1, world1) ([] @ Part ''a'' # [Part ''b'']) =
          (Some ErrNotConnected, sink1\<lparr>client := None\<rparr>,
           world1\<lparr>net := net world1 @ pushes client0 (Key (conf sink1)) ([] @ [Part ''a'']) @ [Close client0],
             logged := logged world1 @ [Errorf (RedisError ''read only'')]\<rparr>)
        \<and> fst (disconnect srv_no_push
                 (sink1, world1\<lparr>net := net world1 @ pushes client0 (Key (conf sink1)) ([] @ [Part ''a''])\<rparr>)) =
            srv_no_push (net world1 @ pushes client0 (Key (conf sink1)) ([] @ [Part ''a''])) (Close client0)"
    by blast
  from quiet [THEN conjunct1]
  have g: "Write srv_no_push (sink1, world1) [Part ''a'', Part ''b''] =
       (Some ErrNotConnected, sink0,
        \<lparr>net = [Ping client0, RPush client0 ''jobs'' ''a'', Close client0],
         logged = [Infof ''jobs'', Errorf (RedisError ''read only'')], made = 1\<rparr>)"
    by (simp add: pushes_def sink1_def sink0_def world1_def sample_conf_def)
  from quiet [THEN conjunct2]
  have h: "fst (disconnect srv_no_push
             (sink1, \<lparr>net = [Ping client0, RPush client0 ''jobs'' ''a''],
                      logged = [Infof ''jobs''], made = 1\<rparr>)) = None"
    by (simp add: pushes_def sink1_def world1_def sample_conf_def srv_no_push_def)
  from h1 a h2 h3 b h4 h5 c h6 d h7 h8 e f h9 h10 g h show ?thesis by blast
qed

text \<open>
  The claim C8 as it was stated fails: here a push fails and the close that follows it
  inside \<^verbatim>\<open>Write\<close> fails with \<^verbatim>\<open>close failed\<close>, the error that \<^verbatim>\<open>disconnect\<close> returns
  at that point; \<^verbatim>\<open>Write\<close> returns \<^verbatim>\<open>ErrNotConnected\<close> and logs the error of the push
  only.
\<close>

theorem close_error_dropped_in_Write:
  "fst (disconnect srv_broken
          (sink1, world1\<lparr>net := net world1 @ [RPush client0 ''jobs'' ''a'']\<rparr>)) =
     Some (RedisError ''close failed'')
   \<and> Write srv_broken (sink1, world1) [Part ''a''] =
       (Some ErrNotConnected, sink0,
        \<lparr>net = [Ping client0, RPush client0 ''jobs'' ''a'', Close client0],
         logged = [Infof ''jobs'', Errorf (RedisError ''broken pipe'')], made = 1\<rparr>)"
  by (simp add: Write_def push_part_def disconnect_def issue_def log_line_def sample_defs
      srv_broken_def)

end
